theory Spec2Isabelle
  imports Complex_Main "HOL-Library.Sublist"
begin

section \<open>Strings of the host language\<close>

text \<open>
  Strings are modelled as lists of \<^typ>\<open>char\<close>, a character being a code point below 256
  (ASCII and the Latin-1 supplement). The string methods the components call are written
  out for that range.
\<close>

definition toLowerChar :: "char \<Rightarrow> char" where
  \<comment> \<open>\<open>String.prototype.toLowerCase\<close> on one code point below 256: A..Z and the
      Latin-1 capitals (all of 0xC0..0xDE but the multiplication sign 0xD7) move up by 32.\<close>
  "toLowerChar c =
     (let n = (of_char c :: nat)
      in if (65 \<le> n \<and> n \<le> 90) \<or> (192 \<le> n \<and> n \<le> 222 \<and> n \<noteq> 215)
         then char_of (n + 32) else c)"

definition toLowerCase :: "string \<Rightarrow> string" where
  "toLowerCase s = map toLowerChar s"

fun includesStr :: "string \<Rightarrow> string \<Rightarrow> bool" where
  \<comment> \<open>\<open>s.includes(t)\<close>: does \<open>t\<close> occur in \<open>s\<close> as a contiguous run.\<close>
  "includesStr [] t = (t = [])"
| "includesStr (c # s) t = (prefix t (c # s) \<or> includesStr s t)"

definition isWhiteSpace :: "char \<Rightarrow> bool" where
  \<comment> \<open>White space and line terminators below 256: tab, LF, VT, FF, CR, space, NBSP.\<close>
  "isWhiteSpace c = ((of_char c :: nat) \<in> {9, 10, 11, 12, 13, 32, 160})"

definition trim :: "string \<Rightarrow> string" where
  "trim s = rev (dropWhile isWhiteSpace (rev (dropWhile isWhiteSpace s)))"

fun natToString :: "nat \<Rightarrow> string" where
  "natToString n =
     (if n < 10 then [char_of (48 + n)]
      else natToString (n div 10) @ [char_of (48 + n mod 10)])"

declare natToString.simps [simp del]

definition toString :: "int \<Rightarrow> string" where
  \<comment> \<open>\<open>Number.prototype.toString\<close> on an integer (of magnitude below \<open>10^21\<close>, where the
      host language still prints every digit).\<close>
  "toString i = (if i < 0 then CHR ''-'' # natToString (nat (- i)) else natToString (nat i))"

definition instructionAt :: "string list \<Rightarrow> int \<Rightarrow> string option" where
  \<comment> \<open>\<open>instructions[currentStep]\<close>: \<open>None\<close> is \<open>undefined\<close>, read outside the array.\<close>
  "instructionAt ins i = (if 0 \<le> i \<and> i < int (length ins) then Some (ins ! nat i) else None)"

definition falsy :: "string option \<Rightarrow> bool" where
  \<comment> \<open>\<open>!x\<close> for a string or \<open>undefined\<close>.\<close>
  "falsy x = (case x of None \<Rightarrow> True | Some s \<Rightarrow> s = [])"

section \<open>VoiceGuidance\<close>

subsection \<open>Data\<close>

definition languageOptions :: "(string \<times> string) list" where
  "languageOptions =
     [(''en-US'', ''English (US)''), (''es-ES'', ''Spanish''), (''fr-FR'', ''French''),
      (''de-DE'', ''German''), (''it-IT'', ''Italian''), (''zh-CN'', ''Chinese''),
      (''ja-JP'', ''Japanese''), (''ko-KR'', ''Korean''), (''hi-IN'', ''Hindi''),
      (''pt-BR'', ''Portuguese''), (''ru-RU'', ''Russian''), (''ar-SA'', ''Arabic''),
      (''th-TH'', ''Thai''), (''tr-TR'', ''Turkish''), (''vi-VN'', ''Vietnamese'')]"

record voice =
  voiceName :: string
  voiceLang :: string

text \<open>The component state held by \<open>useState\<close>. A value of this record is also what a
  function created during a render sees: the closure of that render.\<close>

record vg_state =
  isMuted :: bool
  isPlaying :: bool
  currentStep :: int
  isExpanded :: bool
  selectedLanguage :: string
  showLanguageSelector :: bool
  availableVoices :: "voice list"

text \<open>An utterance, with the render closure its \<open>onend\<close> handler was created in.\<close>

record utterance =
  uttText :: string
  uttLang :: string
  uttVoice :: "voice option"
  uttRate :: rat
  uttPitch :: rat
  uttClosure :: vg_state

datatype synth_call = Cancel | Speak utterance

datatype timer_action =
    AdvanceStep             \<comment> \<open>\<open>setCurrentStep(prev => prev + 1)\<close>, armed by \<open>onend\<close>\<close>
  | StartPlaying            \<comment> \<open>\<open>setIsPlaying(true)\<close>, armed by \<open>togglePlayPause\<close>\<close>
  | Respeak vg_state        \<comment> \<open>\<open>speakCurrentStep()\<close> of the given render, armed by \<open>changeLanguage\<close>\<close>

record toast =
  toastTitle :: string
  toastDescription :: string
  toastDuration :: nat

text \<open>
  The component together with what it acts on: its state, the refs \<open>synth\<close> and
  \<open>utterance\<close>, the utterance the browser is speaking, the calls made to the synthesiser,
  the pending timers (delay in ms and action) and the toasts shown.
\<close>

record vg =
  state :: vg_state
  hasSynth :: bool
  utteranceRef :: "utterance option"
  speaking :: "utterance option"
  synthLog :: "synth_call list"
  timers :: "(nat \<times> timer_action) list"
  toasts :: "toast list"

subsection \<open>Speaking\<close>

definition synthCancel :: "vg \<Rightarrow> vg" where
  "synthCancel w = w\<lparr>speaking := None, synthLog := synthLog w @ [Cancel]\<rparr>"

definition synthSpeak :: "utterance \<Rightarrow> vg \<Rightarrow> vg" where
  "synthSpeak u w = w\<lparr>speaking := Some u, synthLog := synthLog w @ [Speak u]\<rparr>"

definition matchingVoices :: "vg_state \<Rightarrow> voice list" where
  "matchingVoices c =
     filter (\<lambda>v. includesStr (toLowerCase (voiceLang v)) (take 2 (toLowerCase (selectedLanguage c))))
       (availableVoices c)"

definition preferredVoice :: "voice list \<Rightarrow> voice option" where
  "preferredVoice vs =
     (if length vs > 0
      then (case find (\<lambda>v. includesStr (voiceName v) ''Google'' \<or> includesStr (voiceName v) ''Female''
                         \<or> includesStr (voiceName v) ''Samantha'') vs of
              Some v \<Rightarrow> Some v
            | None \<Rightarrow> Some (hd vs))
      else None)"

definition stepText :: "string list \<Rightarrow> vg_state \<Rightarrow> string" where
  "stepText ins c =
     ''Step '' @ toString (currentStep c + 1) @ '': '' @
       (case instructionAt ins (currentStep c) of Some s \<Rightarrow> s | None \<Rightarrow> ''undefined'')"

definition newUtterance :: "string list \<Rightarrow> vg_state \<Rightarrow> utterance" where
  "newUtterance ins c =
     \<lparr>uttText = stepText ins c, uttLang = selectedLanguage c,
      uttVoice = preferredVoice (matchingVoices c), uttRate = 9 / 10, uttPitch = 11 / 10,
      uttClosure = c\<rparr>"

definition speakCurrentStep :: "string list \<Rightarrow> vg_state \<Rightarrow> vg \<Rightarrow> vg" where
  \<comment> \<open>\<open>c\<close> is the render the function belongs to.\<close>
  "speakCurrentStep ins c w =
     (if \<not> hasSynth w \<or> isMuted c \<or> falsy (instructionAt ins (currentStep c)) then w
      else let u = newUtterance ins c
           in synthSpeak u ((synthCancel w)\<lparr>utteranceRef := Some u\<rparr>))"

definition onend :: "string list \<Rightarrow> vg_state \<Rightarrow> vg \<Rightarrow> vg" where
  \<comment> \<open>The handler of an utterance created in render \<open>c\<close>.\<close>
  "onend ins c w =
     (if currentStep c < int (length ins) - 1 \<and> isPlaying c
      then w\<lparr>timers := timers w @ [(1000, AdvanceStep)]\<rparr>
      else if currentStep c = int (length ins) - 1 \<and> isPlaying c
      then w\<lparr>state := (state w)\<lparr>isPlaying := False\<rparr>,
             toasts := toasts w @
               [\<lparr>toastTitle = ''Cooking Complete!'',
                 toastDescription = ''All cooking steps have been read. Enjoy your meal!'',
                 toastDuration = 5000\<rparr>]\<rparr>
      else w)"

definition playbackEffect :: "string list \<Rightarrow> vg \<Rightarrow> vg" where
  \<comment> \<open>The effect on \<open>[isPlaying, isMuted, currentStep, selectedLanguage]\<close>, run in the
      render that has just been committed.\<close>
  "playbackEffect ins w =
     (let c = state w
      in if isPlaying c \<and> \<not> isMuted c then speakCurrentStep ins c w
         else if utteranceRef w \<noteq> None \<and> hasSynth w then synthCancel w
         else w)"

definition depsChanged :: "vg_state \<Rightarrow> vg_state \<Rightarrow> bool" where
  "depsChanged old new =
     (isPlaying old \<noteq> isPlaying new \<or> isMuted old \<noteq> isMuted new \<or>
      currentStep old \<noteq> currentStep new \<or> selectedLanguage old \<noteq> selectedLanguage new)"

definition rerender :: "string list \<Rightarrow> vg_state \<Rightarrow> vg \<Rightarrow> vg" where
  \<comment> \<open>After a handler has run: the new render, whose effect runs when a dependency differs
      from the previous render \<open>old\<close>.\<close>
  "rerender ins old w = (if depsChanged old (state w) then playbackEffect ins w else w)"

subsection \<open>Handlers\<close>

definition togglePlayPause :: "vg_state \<Rightarrow> vg \<Rightarrow> vg" where
  "togglePlayPause c w =
     (let w1 = (if \<not> isPlaying c \<and> isMuted c
                then w\<lparr>state := (state w)\<lparr>isMuted := False\<rparr>,
                       timers := timers w @ [(100, StartPlaying)]\<rparr>
                else w\<lparr>state := (state w)\<lparr>isPlaying := \<not> isPlaying c\<rparr>\<rparr>)
      in if \<not> isPlaying c
         then w1\<lparr>toasts := toasts w1 @
                [\<lparr>toastTitle = ''Voice Guidance Started'',
                  toastDescription = ''I'' @ [CHR 0x27] @ ''ll guide you through each step of the recipe.'',
                  toastDuration = 3000\<rparr>]\<rparr>
         else w1)"

definition toggleMute :: "vg_state \<Rightarrow> vg \<Rightarrow> vg" where
  "toggleMute c w =
     (let w1 = w\<lparr>state := (state w)\<lparr>isMuted := \<not> isMuted c\<rparr>\<rparr>;
          w2 = (if \<not> isMuted c \<and> isPlaying c
                then w1\<lparr>state := (state w1)\<lparr>isPlaying := False\<rparr>\<rparr> else w1)
      in w2\<lparr>toasts := toasts w2 @
           [\<lparr>toastTitle = (if isMuted c then ''Voice Guidance Enabled'' else ''Voice Guidance Muted''),
             toastDescription =
               (if isMuted c then ''You'' @ [CHR 0x27] @ ''ll now hear step-by-step instructions.''
                else ''Voice guidance is now muted.''),
             toastDuration = 3000\<rparr>]\<rparr>)"

definition nextStep :: "string list \<Rightarrow> vg_state \<Rightarrow> vg \<Rightarrow> vg" where
  "nextStep ins c w =
     (if currentStep c < int (length ins) - 1
      then w\<lparr>state := (state w)\<lparr>currentStep := currentStep (state w) + 1\<rparr>\<rparr> else w)"

definition prevStep :: "vg_state \<Rightarrow> vg \<Rightarrow> vg" where
  "prevStep c w =
     (if currentStep c > 0
      then w\<lparr>state := (state w)\<lparr>currentStep := currentStep (state w) - 1\<rparr>\<rparr> else w)"

definition toggleExpand :: "vg_state \<Rightarrow> vg \<Rightarrow> vg" where
  "toggleExpand c w = w\<lparr>state := (state w)\<lparr>isExpanded := \<not> isExpanded c\<rparr>\<rparr>"

definition toggleLanguageSelector :: "vg_state \<Rightarrow> vg \<Rightarrow> vg" where
  "toggleLanguageSelector c w =
     w\<lparr>state := (state w)\<lparr>showLanguageSelector := \<not> showLanguageSelector c\<rparr>\<rparr>"

definition langName :: "string \<Rightarrow> string" where
  "langName langCode =
     (case find (\<lambda>l. fst l = langCode) languageOptions of
        Some l \<Rightarrow> (if snd l = [] then langCode else snd l)
      | None \<Rightarrow> langCode)"

definition changeLanguage :: "vg_state \<Rightarrow> string \<Rightarrow> vg \<Rightarrow> vg" where
  "changeLanguage c langCode w =
     (let w1 = w\<lparr>state := (state w)\<lparr>selectedLanguage := langCode, showLanguageSelector := False\<rparr>,
                 toasts := toasts w @
                   [\<lparr>toastTitle = ''Language Changed'',
                     toastDescription = ''Voice guidance language set to '' @ langName langCode,
                     toastDuration = 3000\<rparr>]\<rparr>
      in if isPlaying c
         then (let w2 = (if hasSynth w1 then synthCancel w1 else w1)
               in w2\<lparr>timers := timers w2 @ [(100, Respeak c)]\<rparr>)
         else w1)"

definition loadVoices :: "voice list \<Rightarrow> vg \<Rightarrow> vg" where
  "loadVoices vs w = w\<lparr>state := (state w)\<lparr>availableVoices := vs\<rparr>\<rparr>"

subsection \<open>Events\<close>

definition fireTimer :: "string list \<Rightarrow> timer_action \<Rightarrow> vg \<Rightarrow> vg" where
  "fireTimer ins a w =
     (case a of
        AdvanceStep \<Rightarrow> w\<lparr>state := (state w)\<lparr>currentStep := currentStep (state w) + 1\<rparr>\<rparr>
      | StartPlaying \<Rightarrow> w\<lparr>state := (state w)\<lparr>isPlaying := True\<rparr>\<rparr>
      | Respeak c \<Rightarrow> speakCurrentStep ins c w)"

datatype vg_event =
    ClickPlayPause | ClickMute | ClickNext | ClickPrev | ClickExpand | ClickGlobe
  | SelectLanguage string
  | VoicesChanged "voice list"
  | UtteranceEnd            \<comment> \<open>the utterance being spoken reaches its end\<close>
  | TimerFires nat          \<comment> \<open>the pending timer at that position fires\<close>

definition handle :: "string list \<Rightarrow> vg_event \<Rightarrow> vg \<Rightarrow> vg" where
  \<comment> \<open>A user event runs the handler of the latest render; the other events run the
      function that was registered.\<close>
  "handle ins e w =
     (let c = state w
      in case e of
           ClickPlayPause \<Rightarrow> togglePlayPause c w
         | ClickMute \<Rightarrow> toggleMute c w
         | ClickNext \<Rightarrow> nextStep ins c w
         | ClickPrev \<Rightarrow> prevStep c w
         | ClickExpand \<Rightarrow> toggleExpand c w
         | ClickGlobe \<Rightarrow> toggleLanguageSelector c w
         | SelectLanguage l \<Rightarrow> changeLanguage c l w
         | VoicesChanged vs \<Rightarrow> (if hasSynth w then loadVoices vs w else w)
         | UtteranceEnd \<Rightarrow>
             (case speaking w of
                None \<Rightarrow> w
              | Some u \<Rightarrow> onend ins (uttClosure u) (w\<lparr>speaking := None\<rparr>))
         | TimerFires k \<Rightarrow>
             (if k < length (timers w)
              then fireTimer ins (snd (timers w ! k))
                     (w\<lparr>timers := take k (timers w) @ drop (Suc k) (timers w)\<rparr>)
              else w))"

definition step :: "string list \<Rightarrow> vg_event \<Rightarrow> vg \<Rightarrow> vg" where
  "step ins e w = rerender ins (state w) (handle ins e w)"

definition run :: "string list \<Rightarrow> vg_event list \<Rightarrow> vg \<Rightarrow> vg" where
  "run ins es w = foldl (\<lambda>w e. step ins e w) w es"

definition initialState :: vg_state where
  "initialState =
     \<lparr>isMuted = False, isPlaying = False, currentStep = 0, isExpanded = False,
      selectedLanguage = ''en-US'', showLanguageSelector = False, availableVoices = []\<rparr>"

definition mount :: "string list \<Rightarrow> bool \<Rightarrow> voice list \<Rightarrow> vg" where
  \<comment> \<open>First render and its two effects; \<open>synthPresent\<close> says whether the browser has
      \<open>window.speechSynthesis\<close>, \<open>vs\<close> is what \<open>getVoices()\<close> returns.\<close>
  "mount ins synthPresent vs =
     (let w0 = \<lparr>state = initialState, hasSynth = synthPresent, utteranceRef = None,
                speaking = None, synthLog = [], timers = [], toasts = []\<rparr>;
          w1 = (if hasSynth w0 then loadVoices vs w0 else w0)
      in playbackEffect ins w1)"

definition inBounds :: "string list \<Rightarrow> vg \<Rightarrow> bool" where
  "inBounds ins w = (0 \<le> currentStep (state w) \<and> currentStep (state w) \<le> int (length ins) - 1)"

datatype icon = Volume2 | VolumeX

definition muteIcon :: "vg_state \<Rightarrow> icon" where
  "muteIcon c = (if isMuted c then VolumeX else Volume2)"

section \<open>ChatBot\<close>

subsection \<open>Data\<close>

datatype sender = User | Bot

record chat_message =
  msgId :: string
  msgText :: string
  msgSender :: sender
  msgTimestamp :: int

datatype chat_timer =
    BotReply string         \<comment> \<open>the reply to the message text the sending render held\<close>
  | MoodTyping string       \<comment> \<open>the outer timer of the mood effect, holding \<open>moodResponse\<close>\<close>
  | MoodReply string        \<comment> \<open>its inner timer\<close>

text \<open>
  The component: the prop \<open>currentMood\<close>, the five \<open>useState\<close> cells and the pending timers
  (delay in ms and action). A value of the record is also the closure of a render.
\<close>

record chat =
  currentMood :: "string option"
  isOpen :: bool
  isMinimized :: bool
  message :: string
  messages :: "chat_message list"
  isTyping :: bool
  chatTimers :: "(nat \<times> chat_timer) list"

subsection \<open>Replies\<close>

definition replyRecipes :: string where
  "replyRecipes = ''I can help you find recipes! Try selecting a mood first, or you can ask me about specific ingredients or dishes.''"

definition replyHello :: string where
  "replyHello = ''Hello there! How can I help with your cooking today?''"

definition replyThanks :: string where
  "replyThanks = ''You'' @ [CHR 0x27] @ ''re welcome! Let me know if you need anything else.''"

definition replyMood :: string where
  "replyMood = ''Your mood can greatly influence what foods might satisfy you. Try selecting a mood to see matching recipes!''"

definition replyDefault :: string where
  "replyDefault = ''I'' @ [CHR 0x27] @ ''m not sure how to respond to that. Could you ask about recipes or cooking?''"

definition botResponse :: "string \<Rightarrow> string" where
  \<comment> \<open>The branching inside the timer of \<open>handleSendMessage\<close>.\<close>
  "botResponse msg =
     (let lowerMessage = toLowerCase msg
      in if includesStr lowerMessage ''recipe'' \<or> includesStr lowerMessage ''cook'' \<or>
            includesStr lowerMessage ''food'' \<or> includesStr lowerMessage ''meal''
         then replyRecipes
         else if includesStr lowerMessage ''hello'' \<or> includesStr lowerMessage ''hi'' \<or>
                 includesStr lowerMessage ''hey''
         then replyHello
         else if includesStr lowerMessage ''thank'' then replyThanks
         else if includesStr lowerMessage ''mood'' then replyMood
         else replyDefault)"

text \<open>
  The reply as the specification words it: a fixed list of keyword groups with their canned
  reply, tried in order on the lower-cased message, a keyword matching when it is a
  substring (\<^const>\<open>sublist\<close>), and a default when none does.
\<close>

definition cannedResponses :: "(string list \<times> string) list" where
  "cannedResponses =
     [([''recipe'', ''cook'', ''food'', ''meal''], replyRecipes),
      ([''hello'', ''hi'', ''hey''], replyHello),
      ([''thank''], replyThanks),
      ([''mood''], replyMood)]"

fun firstMatch :: "(string list \<times> string) list \<Rightarrow> string \<Rightarrow> string" where
  "firstMatch [] m = replyDefault"
| "firstMatch ((ks, r) # rest) m = (if list_ex (\<lambda>k. sublist k m) ks then r else firstMatch rest m)"

definition specReply :: "string \<Rightarrow> string" where
  "specReply msg = firstMatch cannedResponses (toLowerCase msg)"

subsection \<open>Effects and handlers\<close>

text \<open>\<open>tid\<close> is what \<open>Date.now()\<close> returns and \<open>ts\<close> the time of \<open>new Date()\<close>, in ms.\<close>

definition welcomeEffect :: "int \<Rightarrow> int \<Rightarrow> chat \<Rightarrow> chat \<Rightarrow> chat" where
  "welcomeEffect tid ts c w =
     (if isOpen c \<and> length (messages c) = 0
      then w\<lparr>messages :=
             [\<lparr>msgId = toString tid,
               msgText = ''Hello! I'' @ [CHR 0x27] @ ''m your recipe assistant. How can I help you today?'',
               msgSender = Bot, msgTimestamp = ts\<rparr>]\<rparr>
      else w)"

definition moodEffect :: "(string \<Rightarrow> string) \<Rightarrow> chat \<Rightarrow> chat \<Rightarrow> chat" where
  \<comment> \<open>\<open>getChatbotResponse\<close> is imported from \<open>@/utils/moodRecipeData\<close>: a parameter here.
      A mood that is \<open>null\<close>, \<open>undefined\<close> or the empty string is not truthy.\<close>
  "moodEffect getChatbotResponse c w =
     (case currentMood c of
        None \<Rightarrow> w
      | Some mood \<Rightarrow>
          (if mood \<noteq> [] \<and> isOpen c
           then w\<lparr>chatTimers := chatTimers w @ [(500, MoodTyping (getChatbotResponse mood))]\<rparr>
           else w))"

definition chatEffects :: "(string \<Rightarrow> string) \<Rightarrow> int \<Rightarrow> int \<Rightarrow> chat \<Rightarrow> chat \<Rightarrow> chat" where
  \<comment> \<open>The effects of the render \<open>w\<close> that follows the render \<open>old\<close>: each runs when one of
      its dependencies differs.\<close>
  "chatEffects g tid ts old w =
     (let w1 = (if isOpen old \<noteq> isOpen w \<or> length (messages old) \<noteq> length (messages w)
                then welcomeEffect tid ts w w else w)
      in if currentMood old \<noteq> currentMood w \<or> isOpen old \<noteq> isOpen w
         then moodEffect g w w1 else w1)"

definition chatRerender :: "(string \<Rightarrow> string) \<Rightarrow> int \<Rightarrow> int \<Rightarrow> chat \<Rightarrow> chat \<Rightarrow> chat" where
  \<comment> \<open>An effect that sets state causes one more render, whose effects run in turn.\<close>
  "chatRerender g tid ts old w =
     (let w1 = chatEffects g tid ts old w in chatEffects g tid ts w w1)"

definition toggleChat :: "chat \<Rightarrow> chat \<Rightarrow> chat" where
  "toggleChat c w =
     (if \<not> isOpen c then w\<lparr>isOpen := True, isMinimized := False\<rparr>
      else w\<lparr>isMinimized := \<not> isMinimized c\<rparr>)"

definition closeChat :: "chat \<Rightarrow> chat" where
  "closeChat w = w\<lparr>isOpen := False\<rparr>"

definition handleSendMessage :: "int \<Rightarrow> int \<Rightarrow> chat \<Rightarrow> chat \<Rightarrow> chat" where
  "handleSendMessage tid ts c w =
     (if trim (message c) = [] then w
      else w\<lparr>messages := messages w @
                [\<lparr>msgId = toString tid, msgText = message c, msgSender = User, msgTimestamp = ts\<rparr>],
              message := [],
              isTyping := True,
              chatTimers := chatTimers w @ [(1500, BotReply (message c))]\<rparr>)"

definition fireChatTimer :: "int \<Rightarrow> int \<Rightarrow> chat_timer \<Rightarrow> chat \<Rightarrow> chat" where
  "fireChatTimer tid ts a w =
     (case a of
        BotReply m \<Rightarrow>
          w\<lparr>messages := messages w @
               [\<lparr>msgId = toString (tid + 100), msgText = botResponse m, msgSender = Bot,
                 msgTimestamp = ts\<rparr>],
            isTyping := False\<rparr>
      | MoodTyping r \<Rightarrow> w\<lparr>isTyping := True, chatTimers := chatTimers w @ [(1500, MoodReply r)]\<rparr>
      | MoodReply r \<Rightarrow>
          w\<lparr>messages := messages w @
               [\<lparr>msgId = toString tid, msgText = r, msgSender = Bot, msgTimestamp = ts\<rparr>],
            isTyping := False\<rparr>)"

datatype chat_event =
    ToggleChat | CloseChat
  | Type string                   \<comment> \<open>\<open>onChange\<close> of the input\<close>
  | Send                          \<comment> \<open>the form is submitted\<close>
  | MoodChanges "string option"   \<comment> \<open>the parent passes another \<open>currentMood\<close>\<close>
  | ChatTimerFires nat            \<comment> \<open>the pending timer at that position fires\<close>

definition chatHandle :: "int \<Rightarrow> int \<Rightarrow> chat_event \<Rightarrow> chat \<Rightarrow> chat" where
  "chatHandle tid ts e w =
     (case e of
        ToggleChat \<Rightarrow> toggleChat w w
      | CloseChat \<Rightarrow> closeChat w
      | Type s \<Rightarrow> w\<lparr>message := s\<rparr>
      | Send \<Rightarrow> handleSendMessage tid ts w w
      | MoodChanges m \<Rightarrow> w\<lparr>currentMood := m\<rparr>
      | ChatTimerFires k \<Rightarrow>
          (if k < length (chatTimers w)
           then fireChatTimer tid ts (snd (chatTimers w ! k))
                  (w\<lparr>chatTimers := take k (chatTimers w) @ drop (Suc k) (chatTimers w)\<rparr>)
           else w))"

definition chatStep :: "(string \<Rightarrow> string) \<Rightarrow> int \<times> int \<times> chat_event \<Rightarrow> chat \<Rightarrow> chat" where
  \<comment> \<open>An event with the two clock readings taken while it is handled.\<close>
  "chatStep g x w = (case x of (tid, ts, e) \<Rightarrow> chatRerender g tid ts w (chatHandle tid ts e w))"

definition chatRun :: "(string \<Rightarrow> string) \<Rightarrow> (int \<times> int \<times> chat_event) list \<Rightarrow> chat \<Rightarrow> chat" where
  "chatRun g xs w = foldl (\<lambda>w x. chatStep g x w) w xs"

definition chatMount :: "string option \<Rightarrow> chat" where
  \<comment> \<open>The first render; the chat is closed, so neither effect does anything.\<close>
  "chatMount mood =
     \<lparr>currentMood = mood, isOpen = False, isMinimized = False, message = [], messages = [],
      isTyping = False, chatTimers = []\<rparr>"

section \<open>RecipeCard\<close>

subsection \<open>URLs\<close>

definition isWordChar :: "char \<Rightarrow> bool" where
  \<comment> \<open>The class \<open>\w\<close>: letters, digits and the underscore.\<close>
  "isWordChar c =
     (let n = (of_char c :: nat)
      in (48 \<le> n \<and> n \<le> 57) \<or> (65 \<le> n \<and> n \<le> 90) \<or> n = 95 \<or> (97 \<le> n \<and> n \<le> 122))"

function replaceSpaceRuns :: "string \<Rightarrow> string" where
  \<comment> \<open>\<open>.replace(/\s+/g, '+')\<close>: every maximal run of white space becomes one plus sign.\<close>
  "replaceSpaceRuns [] = []"
| "replaceSpaceRuns (c # s) =
     (if isWhiteSpace c then CHR ''+'' # replaceSpaceRuns (dropWhile isWhiteSpace s)
      else c # replaceSpaceRuns s)"
  by pat_completeness auto
termination
  by (relation "measure length") (auto simp: length_dropWhile_le less_Suc_eq_le)

definition searchQuery :: "string \<Rightarrow> string" where
  \<comment> \<open>\<open>recipeName.toLowerCase().replace(/[^\w\s]/gi, '').replace(/\s+/g, '+')\<close>\<close>
  "searchQuery name =
     replaceSpaceRuns (filter (\<lambda>c. isWordChar c \<or> isWhiteSpace c) (toLowerCase name))"

definition hexDigit :: "nat \<Rightarrow> char" where
  "hexDigit k = (if k < 10 then char_of (48 + k) else char_of (55 + k))"

definition percentByte :: "nat \<Rightarrow> string" where
  "percentByte b = [CHR ''%'', hexDigit (b div 16), hexDigit (b mod 16)]"

definition isUnreserved :: "char \<Rightarrow> bool" where
  \<comment> \<open>What \<open>encodeURIComponent\<close> leaves alone: letters, digits and \<open>- _ . ! ~ * ' ( )\<close>.\<close>
  "isUnreserved c =
     (let n = (of_char c :: nat)
      in (48 \<le> n \<and> n \<le> 57) \<or> (65 \<le> n \<and> n \<le> 90) \<or> (97 \<le> n \<and> n \<le> 122) \<or>
         n \<in> {45, 95, 46, 33, 126, 42, 39, 40, 41})"

definition encodeChar :: "char \<Rightarrow> string" where
  \<comment> \<open>The UTF-8 bytes of a code point below 256, each percent-encoded.\<close>
  "encodeChar c =
     (let n = (of_char c :: nat)
      in if isUnreserved c then [c]
         else if n < 128 then percentByte n
         else percentByte (192 + n div 64) @ percentByte (128 + n mod 64))"

definition encodeURIComponent :: "string \<Rightarrow> string" where
  "encodeURIComponent s = concat (map encodeChar s)"

subsection \<open>The card that asks for another random image\<close>

text \<open>
  The card whose error callback calls \<open>getBackupImageUrl\<close> with \<open>Math.random()\<close>. Its image
  state is \<open>imageError\<close> and \<open>imageUrl\<close>; the fields carry a suffix to keep them apart from
  the other card's. \<open>rnd\<close> is the text \<open>Math.random()\<close> expands to in the template string.
\<close>

record card0 =
  imageError0 :: bool
  imageUrl0 :: string

definition getRecipeImageUrl0 :: "string \<Rightarrow> string" where
  "getRecipeImageUrl0 name =
     ''https://source.unsplash.com/featured/?'' @ searchQuery name @
     '',food,dish,recipe&fit=crop&w=600&h=350''"

definition getBackupImageUrl0 :: "string \<Rightarrow> string \<Rightarrow> string" where
  "getBackupImageUrl0 rnd name =
     ''https://source.unsplash.com/random/?'' @ searchQuery name @
     '',food&fit=crop&w=600&h=350&random='' @ rnd"

definition handleImageError0 :: "string \<Rightarrow> string \<Rightarrow> card0 \<Rightarrow> card0" where
  "handleImageError0 rnd name w =
     w\<lparr>imageError0 := True, imageUrl0 := getBackupImageUrl0 rnd name\<rparr>"

definition cardMount0 :: "string \<Rightarrow> card0" where
  \<comment> \<open>The first render and the effect that sets the initial image URL.\<close>
  "cardMount0 name = \<lparr>imageError0 = False, imageUrl0 = getRecipeImageUrl0 name\<rparr>"

subsection \<open>The card with the loading indicator\<close>

definition loadingPlaceholder :: string where
  "loadingPlaceholder = ''https://placehold.co/600x350/f8f9fa/6c757d?text=Loading...''"

definition preloadErrorImage :: string where
  "preloadErrorImage =
     ''https://images.unsplash.com/photo-1504674900247-0877df9cc836?auto=format&fit=crop&w=600&h=350&q=80''"

definition elementErrorImage :: string where
  "elementErrorImage =
     ''https://images.unsplash.com/photo-1606787366850-de6330128bfc?auto=format&fit=crop&w=600&h=350&q=80''"

definition getRecipeImageUrl :: "int \<Rightarrow> string \<Rightarrow> string" where
  \<comment> \<open>\<open>options[0]\<close>; \<open>now\<close> is \<open>Date.now()\<close>.\<close>
  "getRecipeImageUrl now name =
     ''https://source.unsplash.com/featured/?'' @ encodeURIComponent name @
     '',food,dish&fit=crop&w=600&h=350&random='' @ toString now"

definition getBackupImageUrl :: "string \<Rightarrow> string" where
  "getBackupImageUrl name =
     ''https://placehold.co/600x350/f8f9fa/6c757d?text='' @ encodeURIComponent name"

text \<open>A pending \<open>setTimeout\<close> of the image effect, with what its callback closes over.\<close>

record load_timeout =
  timeoutId :: nat
  timeoutDelay :: nat
  closedImageLoading :: bool    \<comment> \<open>\<open>imageLoading\<close> of the render the effect belongs to\<close>
  closedName :: string          \<comment> \<open>\<open>recipe.name\<close> of that render\<close>

definition imageSrc :: "string \<Rightarrow> string" where
  \<comment> \<open>What \<open>img.src\<close> reads back once a URL of \<open>getRecipeImageUrl\<close> has been assigned to
      it: the URL serialised. Of the characters \<open>encodeURIComponent\<close> leaves in the query,
      serialisation percent-encodes the apostrophe and keeps the others.\<close>
  "imageSrc url = concat (map (\<lambda>c. if c = CHR 0x27 then ''%27'' else [c]) url)"

text \<open>An \<open>Image\<close> object being loaded, with the \<open>src\<close> it reads back; its handlers clear
  the timeout of their own effect.\<close>

record preload =
  preloadTimeout :: nat
  preloadSrc :: string

record card =
  recipeName :: string          \<comment> \<open>the prop \<open>recipe.name\<close>\<close>
  imageLoading :: bool
  imageUrl :: string
  nextTimeoutId :: nat
  pendingTimeouts :: "load_timeout list"
  preloads :: "preload list"
  cleanup :: "nat option"       \<comment> \<open>the timeout the cleanup of the last effect clears\<close>

definition clearTimeout :: "nat \<Rightarrow> card \<Rightarrow> card" where
  "clearTimeout i w = w\<lparr>pendingTimeouts := filter (\<lambda>t. timeoutId t \<noteq> i) (pendingTimeouts w)\<rparr>"

definition runCleanup :: "card \<Rightarrow> card" where
  "runCleanup w = (case cleanup w of None \<Rightarrow> w | Some i \<Rightarrow> (clearTimeout i w)\<lparr>cleanup := None\<rparr>)"

definition imageEffect :: "int \<Rightarrow> string \<Rightarrow> bool \<Rightarrow> card \<Rightarrow> card" where
  \<comment> \<open>The effect on \<open>[recipe.name]\<close>, in a render that saw \<open>imageLoading = seen\<close>.\<close>
  "imageEffect now name seen w =
     (if name \<noteq> []
      then let i = nextTimeoutId w
           in w\<lparr>imageUrl := loadingPlaceholder,
                 imageLoading := True,
                 nextTimeoutId := Suc i,
                 preloads := preloads w @
                   [\<lparr>preloadTimeout = i, preloadSrc = imageSrc (getRecipeImageUrl now name)\<rparr>],
                 pendingTimeouts := pendingTimeouts w @
                   [\<lparr>timeoutId = i, timeoutDelay = 5000, closedImageLoading = seen,
                     closedName = name\<rparr>],
                 cleanup := Some i\<rparr>
      else w)"

definition timeoutCallback :: "load_timeout \<Rightarrow> card \<Rightarrow> card" where
  "timeoutCallback t w =
     (if closedImageLoading t
      then w\<lparr>imageUrl := getBackupImageUrl (closedName t), imageLoading := False\<rparr>
      else w)"

definition imgOnload :: "preload \<Rightarrow> card \<Rightarrow> card" where
  "imgOnload p w = (clearTimeout (preloadTimeout p) w)\<lparr>imageUrl := preloadSrc p, imageLoading := False\<rparr>"

definition imgOnerror :: "preload \<Rightarrow> card \<Rightarrow> card" where
  "imgOnerror p w =
     (clearTimeout (preloadTimeout p) w)\<lparr>imageUrl := preloadErrorImage, imageLoading := False\<rparr>"

definition handleImageError :: "card \<Rightarrow> card" where
  "handleImageError w = w\<lparr>imageUrl := elementErrorImage\<rparr>"

datatype card_event =
    NameChanges int string    \<comment> \<open>the parent passes a recipe of another name; \<open>Date.now()\<close>\<close>
  | PreloadLoads nat          \<comment> \<open>the \<open>Image\<close> at that position loads\<close>
  | PreloadFails nat          \<comment> \<open>the \<open>Image\<close> at that position fails\<close>
  | TimeoutFires nat          \<comment> \<open>the pending timeout at that position fires\<close>
  | ElementFails              \<comment> \<open>the \<open>img\<close> element reports an error\<close>

definition removeAt :: "nat \<Rightarrow> 'a list \<Rightarrow> 'a list" where
  "removeAt k xs = take k xs @ drop (Suc k) xs"

definition cardStep :: "card_event \<Rightarrow> card \<Rightarrow> card" where
  "cardStep e w =
     (case e of
        NameChanges now n \<Rightarrow>
          (if n = recipeName w then w
           else imageEffect now n (imageLoading w) ((runCleanup w)\<lparr>recipeName := n\<rparr>))
      | PreloadLoads k \<Rightarrow>
          (if k < length (preloads w)
           then imgOnload (preloads w ! k) (w\<lparr>preloads := removeAt k (preloads w)\<rparr>) else w)
      | PreloadFails k \<Rightarrow>
          (if k < length (preloads w)
           then imgOnerror (preloads w ! k) (w\<lparr>preloads := removeAt k (preloads w)\<rparr>) else w)
      | TimeoutFires k \<Rightarrow>
          (if k < length (pendingTimeouts w)
           then timeoutCallback (pendingTimeouts w ! k)
                  (w\<lparr>pendingTimeouts := removeAt k (pendingTimeouts w)\<rparr>)
           else w)
      | ElementFails \<Rightarrow> handleImageError w)"

definition cardRun :: "card_event list \<Rightarrow> card \<Rightarrow> card" where
  "cardRun es w = foldl (\<lambda>w e. cardStep e w) w es"

definition cardMount :: "int \<Rightarrow> string \<Rightarrow> card" where
  \<comment> \<open>The first render, with \<open>imageLoading = true\<close> and an empty URL, and its image effect.\<close>
  "cardMount now name =
     imageEffect now name True
       \<lparr>recipeName = name, imageLoading = True, imageUrl = [], nextTimeoutId = 0, pendingTimeouts = [],
        preloads = [], cleanup = None\<rparr>"

section \<open>Predicates used in the properties\<close>

text \<open>
  Every utterance being spoken, and every pending re-speak timer, was created in a render
  in which playback was on.
\<close>

definition respeakPlaying :: "nat \<times> timer_action \<Rightarrow> bool" where
  "respeakPlaying t = (case snd t of Respeak c \<Rightarrow> isPlaying c | _ \<Rightarrow> True)"

definition closuresPlaying :: "vg \<Rightarrow> bool" where
  "closuresPlaying w =
     ((case speaking w of
         None \<Rightarrow> True
       | Some u \<Rightarrow> isPlaying (uttClosure u) \<and> \<not> isMuted (uttClosure u)) \<and>
      list_all respeakPlaying (timers w))"

section \<open>Properties of VoiceGuidance\<close>

subsection \<open>What the effect and the handlers leave alone\<close>

lemmas vg_defs = run_def step_def handle_def mount_def rerender_def depsChanged_def
  playbackEffect_def speakCurrentStep_def initialState_def loadVoices_def togglePlayPause_def
  toggleMute_def nextStep_def prevStep_def changeLanguage_def onend_def fireTimer_def
  synthSpeak_def synthCancel_def newUtterance_def instructionAt_def falsy_def Let_def

lemma state_speakCurrentStep [simp]: "state (speakCurrentStep ins c w) = state w"
  by (simp add: speakCurrentStep_def synthSpeak_def synthCancel_def Let_def)

lemma timers_speakCurrentStep [simp]: "timers (speakCurrentStep ins c w) = timers w"
  by (simp add: speakCurrentStep_def synthSpeak_def synthCancel_def Let_def)

lemma state_playbackEffect [simp]: "state (playbackEffect ins w) = state w"
  by (simp add: playbackEffect_def synthCancel_def Let_def)

lemma timers_playbackEffect [simp]: "timers (playbackEffect ins w) = timers w"
  by (simp add: playbackEffect_def synthCancel_def Let_def)

lemma state_rerender [simp]: "state (rerender ins old w) = state w"
  by (simp add: rerender_def)

lemma timers_rerender [simp]: "timers (rerender ins old w) = timers w"
  by (simp add: rerender_def)

lemma state_step: "state (step ins e w) = state (handle ins e w)"
  by (simp add: step_def)

lemma timers_step: "timers (step ins e w) = timers (handle ins e w)"
  by (simp add: step_def)

lemma run_Cons: "run ins (e # es) w = run ins es (step ins e w)"
  by (simp add: run_def)

lemma currentStep_mount [simp]: "currentStep (state (mount ins hs vs)) = 0"
  by (simp add: mount_def initialState_def loadVoices_def Let_def)

lemma currentStep_fireTimer:
  "currentStep (state (fireTimer ins a w)) =
     (case a of AdvanceStep \<Rightarrow> currentStep (state w) + 1 | _ \<Rightarrow> currentStep (state w))"
  by (cases a) (simp_all add: fireTimer_def)

lemma currentStep_handle_cases:
  "currentStep (state (handle ins e w)) = currentStep (state w) \<or>
   currentStep (state (handle ins e w)) = currentStep (state w) + 1 \<or>
   currentStep (state (handle ins e w)) = currentStep (state w) - 1"
proof (cases e)
  case (TimerFires k)
  then show ?thesis
    by (simp add: handle_def currentStep_fireTimer split: timer_action.splits)
next
  case UtteranceEnd
  then show ?thesis
    by (simp add: handle_def onend_def split: option.splits)
qed (simp_all add: handle_def togglePlayPause_def toggleMute_def nextStep_def prevStep_def
      toggleExpand_def toggleLanguageSelector_def changeLanguage_def loadVoices_def
      synthCancel_def Let_def)

subsection \<open>Utterances come from renders in which playback is on\<close>

lemma closuresPlaying_speakCurrentStep:
  "closuresPlaying w \<Longrightarrow> isPlaying c \<Longrightarrow> closuresPlaying (speakCurrentStep ins c w)"
  by (simp add: closuresPlaying_def speakCurrentStep_def synthSpeak_def synthCancel_def
      newUtterance_def Let_def)

lemma closuresPlaying_playbackEffect:
  "closuresPlaying w \<Longrightarrow> closuresPlaying (playbackEffect ins w)"
  by (simp add: playbackEffect_def Let_def closuresPlaying_speakCurrentStep)
     (simp add: closuresPlaying_def synthCancel_def)

lemma closuresPlaying_rerender:
  "closuresPlaying w \<Longrightarrow> closuresPlaying (rerender ins old w)"
  by (simp add: rerender_def closuresPlaying_playbackEffect)

lemma list_all_removed:
  "list_all P xs \<Longrightarrow> list_all P (take k xs @ drop (Suc k) xs)"
  by (auto simp: list_all_iff dest: in_set_takeD in_set_dropD)

lemma closuresPlaying_fireTimer:
  assumes "closuresPlaying w" and "k < length (timers w)"
  shows "closuresPlaying (fireTimer ins (snd (timers w ! k))
           (w\<lparr>timers := take k (timers w) @ drop (Suc k) (timers w)\<rparr>))"
proof -
  let ?w = "w\<lparr>timers := take k (timers w) @ drop (Suc k) (timers w)\<rparr>"
  have rest: "closuresPlaying ?w"
    using assms(1) list_all_removed [of respeakPlaying "timers w" k]
    by (simp add: closuresPlaying_def)
  have fired: "respeakPlaying (timers w ! k)"
    using assms by (simp add: closuresPlaying_def list_all_length)
  show ?thesis
  proof (cases "snd (timers w ! k)")
    case (Respeak c)
    with fired have "isPlaying c"
      by (simp add: respeakPlaying_def)
    with rest Respeak show ?thesis
      by (simp add: fireTimer_def closuresPlaying_speakCurrentStep)
  qed (use rest in \<open>simp_all add: fireTimer_def closuresPlaying_def\<close>)
qed

lemma closuresPlaying_handle:
  assumes "closuresPlaying w"
  shows "closuresPlaying (handle ins e w)"
proof (cases e)
  case (TimerFires k)
  then show ?thesis
    using assms closuresPlaying_fireTimer [of w k ins] by (simp add: handle_def)
next
  case UtteranceEnd
  then show ?thesis
    using assms
    by (simp add: handle_def onend_def closuresPlaying_def respeakPlaying_def split: option.splits)
next
  case (SelectLanguage l)
  then show ?thesis
    using assms
    by (simp add: handle_def changeLanguage_def synthCancel_def closuresPlaying_def
        respeakPlaying_def Let_def split: option.splits)
qed (use assms in \<open>simp_all add: handle_def togglePlayPause_def toggleMute_def nextStep_def
      prevStep_def toggleExpand_def toggleLanguageSelector_def loadVoices_def closuresPlaying_def
      respeakPlaying_def Let_def\<close>)

lemma closuresPlaying_step: "closuresPlaying w \<Longrightarrow> closuresPlaying (step ins e w)"
  by (simp add: step_def closuresPlaying_rerender closuresPlaying_handle)

lemma closuresPlaying_run: "closuresPlaying w \<Longrightarrow> closuresPlaying (run ins es w)"
proof (induction es arbitrary: w)
  case Nil
  then show ?case by (simp add: run_def)
next
  case (Cons e es)
  show ?case
    using Cons.IH [OF closuresPlaying_step [OF Cons.prems]] by (simp add: run_Cons)
qed

lemma closuresPlaying_mount: "closuresPlaying (mount ins hs vs)"
  by (simp add: mount_def playbackEffect_def closuresPlaying_def initialState_def loadVoices_def
      Let_def)

lemma spoken_in_playing_render:
  "speaking (run ins es (mount ins hs vs)) = Some u \<Longrightarrow>
   isPlaying (uttClosure u) \<and> \<not> isMuted (uttClosure u)"
  using closuresPlaying_run [OF closuresPlaying_mount, of ins es ins hs vs]
  by (simp add: closuresPlaying_def)

subsection \<open>The step index\<close>

text \<open>
  With no instruction there is no index within bounds: the component starts at index 0,
  and \<open>instructions.length - 1\<close> is \<open>-1\<close>.
\<close>

lemma empty_list_index_out_of_bounds: "\<not> inBounds [] (mount [] True [])"
  by (simp add: inBounds_def)

text \<open>
  The guards of the source do their work at the moment they are evaluated. For a non-empty
  instruction list the index is within bounds after the first render; from a state within
  bounds, \<open>nextStep\<close>, \<open>prevStep\<close> and the \<open>onend\<close> handler keep it within bounds (the handler
  does not move the index: it arms a timer or stops playback); and the advance timer keeps
  it within bounds when it fires next after the utterance of the step being shown has ended.
\<close>

lemma guarded_moves_stay_in_bounds:
  "(ins \<noteq> [] \<longrightarrow> inBounds ins (mount ins hs vs)) \<and>
   (inBounds ins w \<longrightarrow>
      inBounds ins (step ins ClickNext w) \<and> inBounds ins (step ins ClickPrev w) \<and>
      inBounds ins (step ins UtteranceEnd w)) \<and>
   (inBounds ins w \<and> speaking w = Some u \<and> currentStep (uttClosure u) = currentStep (state w) \<longrightarrow>
      inBounds ins (step ins (TimerFires (length (timers w))) (step ins UtteranceEnd w)))"
proof (intro conjI impI)
  assume "ins \<noteq> []"
  then have "0 < length ins" by simp
  then show "inBounds ins (mount ins hs vs)" by (simp add: inBounds_def)
next
  assume "inBounds ins w"
  then show "inBounds ins (step ins ClickNext w)"
    by (simp add: inBounds_def state_step handle_def nextStep_def)
next
  assume "inBounds ins w"
  then show "inBounds ins (step ins ClickPrev w)"
    by (simp add: inBounds_def state_step handle_def prevStep_def)
next
  assume "inBounds ins w"
  then show "inBounds ins (step ins UtteranceEnd w)"
    by (simp add: inBounds_def state_step handle_def onend_def split: option.splits)
next
  assume "inBounds ins w \<and> speaking w = Some u \<and>
    currentStep (uttClosure u) = currentStep (state w)"
  then show "inBounds ins (step ins (TimerFires (length (timers w))) (step ins UtteranceEnd w))"
    by (auto simp: inBounds_def state_step timers_step handle_def onend_def fireTimer_def)
qed

text \<open>
  Claim C1, at a failing run. With the two instructions \<open>a\<close> and \<open>b\<close>: play is clicked, the
  utterance of step 1 ends and \<open>onend\<close>, having checked \<open>currentStep < instructions.length - 1\<close>,
  arms the 1000 ms advance timer; \<open>nextStep\<close> is clicked before the timer fires and moves the
  index to 1, the last step, still within bounds; the timer, which nothing cancels and which
  checks nothing, then fires and adds one. The index is 2, the length of the list, and out
  of bounds.
\<close>

theorem advance_timer_after_nextStep:
  "inBounds [''a'', ''b'']
     (run [''a'', ''b''] [ClickPlayPause, UtteranceEnd, ClickNext] (mount [''a'', ''b''] True [])) \<and>
   timers
     (run [''a'', ''b''] [ClickPlayPause, UtteranceEnd, ClickNext] (mount [''a'', ''b''] True [])) =
     [(1000, AdvanceStep)] \<and>
   currentStep (state
     (run [''a'', ''b''] [ClickPlayPause, UtteranceEnd, ClickNext, TimerFires 0]
        (mount [''a'', ''b''] True []))) = 2 \<and>
   \<not> inBounds [''a'', ''b'']
     (run [''a'', ''b''] [ClickPlayPause, UtteranceEnd, ClickNext, TimerFires 0]
        (mount [''a'', ''b''] True []))"
  by (simp add: vg_defs inBounds_def)

theorem advance_timer_after_nextStep_witness:
  "currentStep (state
     (run [''a'', ''b''] [ClickPlayPause, UtteranceEnd, ClickNext, TimerFires 0]
        (mount [''a'', ''b''] True []))) = int (length [''a'', ''b''])"
  using advance_timer_after_nextStep by simp

text \<open>
  Claim C3. In every state the component reaches, when the utterance being spoken ends:
  if it is the utterance of a step before the last, the handler leaves index and playback
  alone and arms one timer of 1000 ms, and that timer, firing next, adds exactly one to the
  index; if it is the utterance of the last step, the index is unchanged, playback is off
  and no timer is armed. (The handler reads \<open>isPlaying\<close> of the render that created the
  utterance, where playback is on: \<open>spoken_in_playing_render\<close>.) No event moves the index
  by more than one.
\<close>

theorem utterance_end_linear_advance:
  assumes "w = run ins es (mount ins hs vs)" and "speaking w = Some u"
  shows "(currentStep (uttClosure u) < int (length ins) - 1 \<longrightarrow>
           currentStep (state (step ins UtteranceEnd w)) = currentStep (state w) \<and>
           isPlaying (state (step ins UtteranceEnd w)) = isPlaying (state w) \<and>
           timers (step ins UtteranceEnd w) = timers w @ [(1000, AdvanceStep)] \<and>
           currentStep (state (step ins (TimerFires (length (timers w))) (step ins UtteranceEnd w)))
             = currentStep (state w) + 1) \<and>
         (currentStep (uttClosure u) = int (length ins) - 1 \<longrightarrow>
           currentStep (state (step ins UtteranceEnd w)) = currentStep (state w) \<and>
           \<not> isPlaying (state (step ins UtteranceEnd w)) \<and>
           timers (step ins UtteranceEnd w) = timers w) \<and>
         (\<forall>e. \<bar>currentStep (state (step ins e w)) - currentStep (state w)\<bar> \<le> 1)"
proof -
  have playing: "isPlaying (uttClosure u)"
    using assms spoken_in_playing_render [of ins es hs vs u] by simp
  show ?thesis
  proof (intro conjI impI allI)
    fix e
    show "\<bar>currentStep (state (step ins e w)) - currentStep (state w)\<bar> \<le> 1"
      using currentStep_handle_cases [of ins e w] by (auto simp: state_step)
  qed (use assms(2) playing in
        \<open>simp_all add: state_step timers_step handle_def onend_def fireTimer_def\<close>)
qed

theorem utterance_end_linear_advance_witness:
  "speaking (run [''a'', ''b''] [ClickPlayPause] (mount [''a'', ''b''] True [])) =
     Some (newUtterance [''a'', ''b''] (initialState\<lparr>isPlaying := True\<rparr>)) \<and>
   timers (step [''a'', ''b''] UtteranceEnd
     (run [''a'', ''b''] [ClickPlayPause] (mount [''a'', ''b''] True []))) = [(1000, AdvanceStep)] \<and>
   currentStep (state (step [''a'', ''b''] (TimerFires 0) (step [''a'', ''b''] UtteranceEnd
     (run [''a'', ''b''] [ClickPlayPause] (mount [''a'', ''b''] True []))))) = 1 \<and>
   speaking (run [''a''] [ClickPlayPause] (mount [''a''] True [])) =
     Some (newUtterance [''a''] (initialState\<lparr>isPlaying := True\<rparr>)) \<and>
   currentStep (state (step [''a''] UtteranceEnd
     (run [''a''] [ClickPlayPause] (mount [''a''] True [])))) = 0 \<and>
   \<not> isPlaying (state (step [''a''] UtteranceEnd
     (run [''a''] [ClickPlayPause] (mount [''a''] True []))))"
proof -
  let ?W = "run [''a'', ''b''] [ClickPlayPause] (mount [''a'', ''b''] True [])"
  let ?U = "newUtterance [''a'', ''b''] (initialState\<lparr>isPlaying := True\<rparr>)"
  let ?W' = "run [''a''] [ClickPlayPause] (mount [''a''] True [])"
  let ?U' = "newUtterance [''a''] (initialState\<lparr>isPlaying := True\<rparr>)"
  have sp: "speaking ?W = Some ?U" and tm: "timers ?W = []" and cs: "currentStep (state ?W) = 0"
    by (simp_all add: vg_defs)
  have nf: "currentStep (uttClosure ?U) < int (length [''a'', ''b'']) - 1"
    by (simp add: newUtterance_def initialState_def)
  have sp': "speaking ?W' = Some ?U'" and cs': "currentStep (state ?W') = 0"
    by (simp_all add: vg_defs)
  have fin: "currentStep (uttClosure ?U') = int (length [''a'']) - 1"
    by (simp add: newUtterance_def initialState_def)
  have A: "timers (step [''a'', ''b''] UtteranceEnd ?W) = timers ?W @ [(1000, AdvanceStep)] \<and>
      currentStep (state (step [''a'', ''b''] (TimerFires (length (timers ?W)))
        (step [''a'', ''b''] UtteranceEnd ?W))) = currentStep (state ?W) + 1"
    using utterance_end_linear_advance [OF refl sp] nf by blast
  have B: "currentStep (state (step [''a''] UtteranceEnd ?W')) = currentStep (state ?W') \<and>
      \<not> isPlaying (state (step [''a''] UtteranceEnd ?W'))"
    using utterance_end_linear_advance [OF refl sp'] fin by blast
  show ?thesis
    using sp sp' A B by (simp add: tm cs cs')
qed

subsection \<open>Mute\<close>

text \<open>
  Claim C7. A click on the mute button negates \<open>isMuted\<close>, so the icon shown changes, and
  a second click restores \<open>isMuted\<close>.
\<close>

theorem toggleMute_negates:
  "isMuted (state (step ins ClickMute w)) = (\<not> isMuted (state w)) \<and>
   muteIcon (state (step ins ClickMute w)) \<noteq> muteIcon (state w) \<and>
   isMuted (state (step ins ClickMute (step ins ClickMute w))) = isMuted (state w)"
  by (simp add: state_step handle_def toggleMute_def muteIcon_def Let_def)

theorem toggleMute_negates_witness:
  "isMuted (state (step [''a''] ClickMute (mount [''a''] True []))) \<and>
   muteIcon (state (step [''a''] ClickMute (mount [''a''] True []))) = VolumeX \<and>
   \<not> isMuted (state (step [''a''] ClickMute (step [''a''] ClickMute (mount [''a''] True []))))"
  using toggleMute_negates [of "[''a'']" "mount [''a''] True []"]
  by (simp add: mount_def initialState_def loadVoices_def playbackEffect_def muteIcon_def Let_def)

lemma speakCurrentStep_muted: "isMuted c \<Longrightarrow> speakCurrentStep ins c w = w"
  by (simp add: speakCurrentStep_def)

lemma playbackEffect_muted:
  "isMuted (state w) \<Longrightarrow>
   playbackEffect ins w = (if utteranceRef w \<noteq> None \<and> hasSynth w then synthCancel w else w)"
  by (simp add: playbackEffect_def Let_def)

text \<open>
  Claim C9, at a failing run. While step 1 is being read, a language is selected and the
  mute button is clicked before the 100 ms timer of \<open>changeLanguage\<close> fires. The timer
  calls the \<open>speakCurrentStep\<close> of the render in which the language was selected, whose
  \<open>isMuted\<close> is false: it cancels and speaks, although the component is muted.
\<close>

theorem respeak_timer_speaks_while_muted:
  "isMuted (state (run [''Boil water'']
      [ClickPlayPause, SelectLanguage ''es-ES'', ClickMute, TimerFires 0]
      (mount [''Boil water''] True []))) \<and>
   (\<exists>u. synthLog (run [''Boil water'']
            [ClickPlayPause, SelectLanguage ''es-ES'', ClickMute, TimerFires 0]
            (mount [''Boil water''] True [])) =
         synthLog (run [''Boil water''] [ClickPlayPause, SelectLanguage ''es-ES'', ClickMute]
            (mount [''Boil water''] True [])) @ [Cancel, Speak u])"
  by (simp add: vg_defs)

theorem respeak_timer_speaks_while_muted_witness:
  "isMuted (state (run [''Boil water'']
      [ClickPlayPause, SelectLanguage ''es-ES'', ClickMute, TimerFires 0]
      (mount [''Boil water''] True []))) \<and>
   synthLog (run [''Boil water'']
      [ClickPlayPause, SelectLanguage ''es-ES'', ClickMute, TimerFires 0]
      (mount [''Boil water''] True [])) \<noteq>
   synthLog (run [''Boil water''] [ClickPlayPause, SelectLanguage ''es-ES'', ClickMute]
      (mount [''Boil water''] True []))"
  using respeak_timer_speaks_while_muted by auto

subsection \<open>Language\<close>

lemma changeLanguage_selects: "selectedLanguage (state (step ins (SelectLanguage l) w)) = l"
  by (simp add: state_step handle_def changeLanguage_def synthCancel_def Let_def)

lemma newUtterance_lang: "uttLang (newUtterance ins c) = selectedLanguage c"
  by (simp add: newUtterance_def)

text \<open>
  Claim C8, at a failing run. While step 1 is being read in \<open>en-US\<close>, \<open>es-ES\<close> is selected.
  The selected language is \<open>es-ES\<close>, but the 100 ms timer of \<open>changeLanguage\<close> calls the
  \<open>speakCurrentStep\<close> of the render in which the language was still \<open>en-US\<close>: the utterance
  it creates and speaks has \<open>lang = en-US\<close>.
\<close>

theorem respeak_timer_uses_old_language:
  "selectedLanguage (state (run [''Boil water'']
      [ClickPlayPause, SelectLanguage ''es-ES'', TimerFires 0]
      (mount [''Boil water''] True []))) = ''es-ES'' \<and>
   map_option uttLang (speaking (run [''Boil water'']
      [ClickPlayPause, SelectLanguage ''es-ES'', TimerFires 0]
      (mount [''Boil water''] True []))) = Some ''en-US''"
  by (simp add: vg_defs)

theorem respeak_timer_uses_old_language_witness:
  "map_option uttLang (speaking (run [''Boil water'']
      [ClickPlayPause, SelectLanguage ''es-ES'', TimerFires 0]
      (mount [''Boil water''] True []))) \<noteq>
   Some (selectedLanguage (state (run [''Boil water'']
      [ClickPlayPause, SelectLanguage ''es-ES'', TimerFires 0]
      (mount [''Boil water''] True []))))"
  using respeak_timer_uses_old_language by auto

section \<open>Properties of ChatBot\<close>

subsection \<open>String helpers\<close>

lemma includesStr_sublist: "includesStr s t = sublist t s"
  by (induction s) (simp_all add: sublist_Cons_right)

lemma trim_Nil_iff: "trim s = [] \<longleftrightarrow> (\<forall>c\<in>set s. isWhiteSpace c)"
proof
  assume "trim s = []"
  then have "\<forall>c\<in>set (dropWhile isWhiteSpace s). isWhiteSpace c"
    by (simp add: trim_def)
  then have "dropWhile isWhiteSpace s = []"
    using hd_dropWhile [of isWhiteSpace s] by (cases "dropWhile isWhiteSpace s") auto
  then show "\<forall>c\<in>set s. isWhiteSpace c"
    by simp
next
  assume "\<forall>c\<in>set s. isWhiteSpace c"
  then show "trim s = []" by (auto simp: trim_def dest: set_dropWhileD)
qed

subsection \<open>The message list only grows at its end\<close>

lemma messages_welcomeEffect: "prefix (messages w) (messages (welcomeEffect tid ts w w))"
  by (simp add: welcomeEffect_def)

lemma messages_moodEffect [simp]: "messages (moodEffect g c w) = messages w"
  by (simp add: moodEffect_def split: option.splits)

lemma messages_chatEffects: "prefix (messages w) (messages (chatEffects g tid ts old w))"
  by (simp add: chatEffects_def Let_def messages_welcomeEffect)

lemma messages_chatRerender: "prefix (messages w) (messages (chatRerender g tid ts old w))"
  unfolding chatRerender_def Let_def
  by (rule prefix_order.trans [OF messages_chatEffects messages_chatEffects])

lemma messages_fireChatTimer: "prefix (messages w) (messages (fireChatTimer tid ts a w))"
  by (cases a) (simp_all add: fireChatTimer_def)

lemma messages_chatHandle: "prefix (messages w) (messages (chatHandle tid ts e w))"
proof (cases e)
  case (ChatTimerFires k)
  show ?thesis
    using messages_fireChatTimer
      [of "w\<lparr>chatTimers := take k (chatTimers w) @ drop (Suc k) (chatTimers w)\<rparr>" tid ts
          "snd (chatTimers w ! k)"]
    by (simp add: chatHandle_def ChatTimerFires)
qed (simp_all add: chatHandle_def toggleChat_def closeChat_def handleSendMessage_def)

lemma messages_chatStep: "prefix (messages w) (messages (chatStep g x w))"
proof (cases x)
  case (fields tid ts e)
  show ?thesis
    unfolding fields chatStep_def prod.case
    by (rule prefix_order.trans [OF messages_chatHandle messages_chatRerender])
qed

lemma chatRun_Cons: "chatRun g (x # xs) w = chatRun g xs (chatStep g x w)"
  by (simp add: chatRun_def)

lemma messages_chatRun: "prefix (messages w) (messages (chatRun g xs w))"
proof (induction xs arbitrary: w)
  case Nil
  show ?case by (simp add: chatRun_def)
next
  case (Cons x xs)
  show ?case
    using prefix_order.trans [OF messages_chatStep Cons.IH] by (simp add: chatRun_Cons)
qed

text \<open>
  Claim C5. Whatever the event (opening the chat with its welcome message, sending, a
  bot-reply timer, the timers of the mood effect, or any other), the message list before
  it is an initial segment of the list after it; so it is over any sequence of events.
\<close>

theorem messages_append_only:
  "prefix (messages w) (messages (chatStep g x w)) \<and>
   prefix (messages w) (messages (chatRun g xs w))"
  by (simp add: messages_chatStep messages_chatRun)

theorem messages_append_only_witness:
  "prefix (messages (chatStep id (1, 2, ToggleChat) (chatMount None)))
     (messages (chatStep id (5, 6, Send)
        ((chatStep id (1, 2, ToggleChat) (chatMount None))\<lparr>message := ''hi''\<rparr>))) \<and>
   length (messages (chatStep id (1, 2, ToggleChat) (chatMount None))) = 1 \<and>
   length (messages (chatStep id (5, 6, Send)
        ((chatStep id (1, 2, ToggleChat) (chatMount None))\<lparr>message := ''hi''\<rparr>))) = 2"
proof -
  let ?W = "chatStep id (1, 2, ToggleChat) (chatMount None)"
  have tr: "trim ''hi'' \<noteq> []"
    by code_simp
  have one: "length (messages ?W) = 1"
    by (simp add: chatStep_def chatHandle_def chatMount_def toggleChat_def chatRerender_def
        chatEffects_def welcomeEffect_def moodEffect_def Let_def)
  have two: "length (messages (chatStep id (5, 6, Send) (?W\<lparr>message := ''hi''\<rparr>))) =
      Suc (length (messages ?W))"
    using tr
    by (simp add: chatStep_def [of id "(5, 6, Send)"] chatHandle_def handleSendMessage_def
        chatRerender_def chatEffects_def welcomeEffect_def moodEffect_def Let_def
        split: option.splits)
  have "prefix (messages (?W\<lparr>message := ''hi''\<rparr>))
      (messages (chatStep id (5, 6, Send) (?W\<lparr>message := ''hi''\<rparr>)))"
    using messages_append_only [of "?W\<lparr>message := ''hi''\<rparr>" id "(5, 6, Send)" "[]"] by blast
  then show ?thesis
    using one two by simp
qed

subsection \<open>Sending\<close>

lemma chatEffects_same:
  "isOpen old = isOpen w \<Longrightarrow> length (messages old) = length (messages w) \<Longrightarrow>
   currentMood old = currentMood w \<Longrightarrow> chatEffects g tid ts old w = w"
  by (simp add: chatEffects_def)

lemma chatRerender_same: "chatRerender g tid ts w w = w"
  by (simp add: chatRerender_def chatEffects_same)

text \<open>
  Claim C10. When the input holds only white space (or nothing), \<open>handleSendMessage\<close>
  returns the component as it was: no message is appended, the typing indicator is not
  set, no timer is armed, and no effect runs afterwards.
\<close>

theorem blank_message_not_sent:
  "(\<forall>c\<in>set (message w). isWhiteSpace c) \<Longrightarrow>
   handleSendMessage tid ts w w = w \<and> chatStep g (tid, ts, Send) w = w"
  by (simp add: handleSendMessage_def chatStep_def chatHandle_def trim_Nil_iff chatRerender_same)

theorem blank_message_not_sent_witness:
  "trim ''  '' = [] \<and>
   chatStep id (5, 6, Send) ((chatMount None)\<lparr>isOpen := True, message := ''  ''\<rparr>) =
     (chatMount None)\<lparr>isOpen := True, message := ''  ''\<rparr>"
proof -
  have blank: "trim ''  '' = []"
    by code_simp
  then have a: "\<forall>c\<in>set ''  ''. isWhiteSpace c"
    by (simp only: trim_Nil_iff)
  show ?thesis
    using blank_message_not_sent [of "(chatMount None)\<lparr>isOpen := True, message := ''  ''\<rparr>" 5 6 id]
      a blank
    by simp
qed

lemma chatStep_Send:
  assumes "trim (message w) \<noteq> []"
  shows "chatStep g (tid, ts, Send) w =
    w\<lparr>messages := messages w @
          [\<lparr>msgId = toString tid, msgText = message w, msgSender = User, msgTimestamp = ts\<rparr>],
       message := [], isTyping := True,
       chatTimers := chatTimers w @ [(1500, BotReply (message w))]\<rparr>"
  using assms
  by (simp add: chatStep_def chatHandle_def handleSendMessage_def chatRerender_def chatEffects_def
      welcomeEffect_def Let_def)

lemma chatStep_BotReply:
  assumes "k < length (chatTimers w)" and "snd (chatTimers w ! k) = BotReply m"
  shows "messages (chatStep g (tid, ts, ChatTimerFires k) w) =
    messages w @ [\<lparr>msgId = toString (tid + 100), msgText = botResponse m, msgSender = Bot,
                   msgTimestamp = ts\<rparr>]"
  using assms
  by (simp add: chatStep_def chatHandle_def fireChatTimer_def chatRerender_def chatEffects_def
      welcomeEffect_def moodEffect_def Let_def split: option.splits)

subsection \<open>The reply\<close>

lemma botResponse_specReply: "botResponse m = specReply m"
  by (simp add: botResponse_def specReply_def cannedResponses_def includesStr_sublist Let_def)

text \<open>
  Claim C4. The reply the component computes is the one of the priority list: the first
  group, in the order recipe/cook/food/meal, hello/hi/hey, thank, mood, one of whose
  keywords is a substring of the lower-cased message, and the default reply when there is
  none. It is one of the five fixed texts, and two messages that differ only in case get
  the same reply. For a message that is not blank, sending it and letting its timer fire
  appends the user message and then the bot message with that reply.
\<close>

theorem botResponse_keyword_priority:
  "botResponse m = specReply m \<and>
   botResponse m \<in> set (replyDefault # map snd cannedResponses) \<and>
   (toLowerCase m' = toLowerCase m \<longrightarrow> botResponse m' = botResponse m) \<and>
   (trim m \<noteq> [] \<and> message w = m \<longrightarrow>
      messages (chatStep g (tid', ts', ChatTimerFires (length (chatTimers w)))
                 (chatStep g (tid, ts, Send) w)) =
        messages w @
          [\<lparr>msgId = toString tid, msgText = m, msgSender = User, msgTimestamp = ts\<rparr>,
           \<lparr>msgId = toString (tid' + 100), msgText = specReply m, msgSender = Bot,
             msgTimestamp = ts'\<rparr>])"
proof (intro conjI impI)
  show "botResponse m = specReply m" by (rule botResponse_specReply)
  show "botResponse m \<in> set (replyDefault # map snd cannedResponses)"
    by (simp add: botResponse_def cannedResponses_def Let_def)
  show "botResponse m' = botResponse m" if "toLowerCase m' = toLowerCase m"
    using that by (simp add: botResponse_def)
  show "messages (chatStep g (tid', ts', ChatTimerFires (length (chatTimers w)))
                 (chatStep g (tid, ts, Send) w)) =
        messages w @
          [\<lparr>msgId = toString tid, msgText = m, msgSender = User, msgTimestamp = ts\<rparr>,
           \<lparr>msgId = toString (tid' + 100), msgText = specReply m, msgSender = Bot,
             msgTimestamp = ts'\<rparr>]"
    if "trim m \<noteq> [] \<and> message w = m"
  proof -
    from that have t: "trim (message w) \<noteq> []" and m: "message w = m" by simp_all
    show ?thesis
      by (simp add: chatStep_Send [OF t] chatStep_BotReply m botResponse_specReply)
  qed
qed

theorem botResponse_keyword_priority_witness:
  "trim ''Thanks for this'' \<noteq> [] \<and>
   toLowerCase ''THANKS FOR THIS'' = toLowerCase ''Thanks for this'' \<and>
   botResponse ''Thanks for this'' = replyHello \<and>
   botResponse ''THANKS FOR THIS'' = replyHello \<and>
   map msgText (messages (chatStep id (7, 8, ChatTimerFires 0)
       (chatStep id (5, 6, Send) ((chatMount None)\<lparr>isOpen := True, message := ''Thanks for this''\<rparr>)))) =
     [''Thanks for this'', replyHello]"
proof -
  have a: "trim ''Thanks for this'' \<noteq> []"
    by code_simp
  have b: "toLowerCase ''THANKS FOR THIS'' = toLowerCase ''Thanks for this''"
    by code_simp
  have c: "specReply ''Thanks for this'' = replyHello"
    by code_simp
  show ?thesis
    using botResponse_keyword_priority [of "''Thanks for this''" "''THANKS FOR THIS''"
        "(chatMount None)\<lparr>isOpen := True, message := ''Thanks for this''\<rparr>" id 7 8 5 6] a b c
    by (simp add: chatMount_def)
qed

section \<open>Properties of RecipeCard\<close>

subsection \<open>Error callbacks\<close>

text \<open>
  Claim C2, as stated, at the card that asks for another random image: the same failure
  of the same recipe's image gives two different URLs for two values of \<open>Math.random()\<close>.
\<close>

theorem backup_url_depends_on_random:
  "imageUrl0 (handleImageError0 ''0.25'' ''Soup'' (cardMount0 ''Soup'')) \<noteq>
   imageUrl0 (handleImageError0 ''0.75'' ''Soup'' (cardMount0 ''Soup''))"
  by (simp add: handleImageError0_def getBackupImageUrl0_def)

text \<open>
  Claim C2, amended. In the card with the loading indicator both error callbacks, the one
  of the \<open>img\<close> element and the one of the preloaded \<open>Image\<close>, replace the source with a
  fixed URL, whatever the recipe, the state and the time. In the other card the callback
  sets \<open>imageError\<close> and replaces the source with a search URL made of the cleaned recipe
  name and a fresh random number, so that two calls give the same URL only for the same
  random number.
\<close>

theorem image_error_replacement_urls:
  "imageUrl (handleImageError w) = elementErrorImage \<and>
   (k < length (preloads w) \<longrightarrow> imageUrl (cardStep (PreloadFails k) w) = preloadErrorImage) \<and>
   imageError0 (handleImageError0 rnd name w0) \<and>
   imageUrl0 (handleImageError0 rnd name w0) =
     ''https://source.unsplash.com/random/?'' @ searchQuery name @
     '',food&fit=crop&w=600&h=350&random='' @ rnd \<and>
   (imageUrl0 (handleImageError0 rnd name w0) = imageUrl0 (handleImageError0 rnd' name w0')
      \<longleftrightarrow> rnd = rnd')"
  by (simp add: handleImageError_def cardStep_def imgOnerror_def clearTimeout_def
      handleImageError0_def getBackupImageUrl0_def)

theorem image_error_replacement_urls_witness:
  "0 < length (preloads (cardMount 1000 ''Soup'')) \<and>
   imageUrl (handleImageError (cardMount 1000 ''Soup'')) = elementErrorImage \<and>
   imageUrl (cardStep (PreloadFails 0) (cardMount 1000 ''Soup'')) = preloadErrorImage \<and>
   imageUrl0 (handleImageError0 ''0.25'' ''Mac & Cheese'' (cardMount0 ''Mac & Cheese'')) =
     ''https://source.unsplash.com/random/?mac+cheese,food&fit=crop&w=600&h=350&random=0.25''"
proof -
  have a: "0 < length (preloads (cardMount 1000 ''Soup''))"
    by (simp add: cardMount_def imageEffect_def Let_def)
  have b: "searchQuery ''Mac & Cheese'' = ''mac+cheese''"
    by code_simp
  show ?thesis
    using image_error_replacement_urls
      [of "cardMount 1000 ''Soup''" 0 "''0.25''" "''Mac & Cheese''" "cardMount0 ''Mac & Cheese''"]
      a b
    by simp
qed

subsection \<open>The loading timeout\<close>

lemma imageEffect_arms_timeout:
  "name \<noteq> [] \<Longrightarrow>
   pendingTimeouts (imageEffect now name seen w) =
     pendingTimeouts w @
       [\<lparr>timeoutId = nextTimeoutId w, timeoutDelay = 5000, closedImageLoading = seen,
         closedName = name\<rparr>]"
  by (simp add: imageEffect_def Let_def)

lemma first_load_timeout_falls_back:
  "name \<noteq> [] \<Longrightarrow>
   imageUrl (cardStep (TimeoutFires 0) (cardMount now name)) = getBackupImageUrl name \<and>
   \<not> imageLoading (cardStep (TimeoutFires 0) (cardMount now name))"
  by (simp add: cardStep_def cardMount_def imageEffect_def timeoutCallback_def removeAt_def Let_def)

lemma first_load_settled_cancels_timeout:
  "name \<noteq> [] \<Longrightarrow>
   pendingTimeouts (cardStep (PreloadLoads 0) (cardMount now name)) = [] \<and>
   pendingTimeouts (cardStep (PreloadFails 0) (cardMount now name)) = []"
  by (simp add: cardStep_def cardMount_def imageEffect_def imgOnload_def imgOnerror_def
      clearTimeout_def removeAt_def Let_def)

text \<open>
  Claim C6, at a failing run. The card shows the recipe Pasta and its image has loaded, so
  \<open>imageLoading\<close> is false in the render that follows. The parent then passes the recipe
  Soup: the effect arms a timeout of 5000 ms whose callback closes over that render's
  \<open>imageLoading = false\<close>. The image of Soup neither loads nor fails, the timeout fires,
  and its guard \<open>if (imageLoading)\<close> is false: the source stays the loading placeholder,
  not the backup URL, and the loading flag stays set.
\<close>

theorem stale_timeout_leaves_placeholder:
  "\<not> imageLoading (cardRun [PreloadLoads 0] (cardMount 1000 ''Pasta'')) \<and>
   pendingTimeouts (cardRun [PreloadLoads 0, NameChanges 2000 ''Soup''] (cardMount 1000 ''Pasta'')) =
     [\<lparr>timeoutId = 1, timeoutDelay = 5000, closedImageLoading = False, closedName = ''Soup''\<rparr>] \<and>
   map preloadTimeout
     (preloads (cardRun [PreloadLoads 0, NameChanges 2000 ''Soup''] (cardMount 1000 ''Pasta''))) = [1] \<and>
   imageUrl (cardRun [PreloadLoads 0, NameChanges 2000 ''Soup'', TimeoutFires 0] (cardMount 1000 ''Pasta''))
     = loadingPlaceholder \<and>
   imageUrl (cardRun [PreloadLoads 0, NameChanges 2000 ''Soup'', TimeoutFires 0] (cardMount 1000 ''Pasta''))
     \<noteq> getBackupImageUrl ''Soup'' \<and>
   imageLoading (cardRun [PreloadLoads 0, NameChanges 2000 ''Soup'', TimeoutFires 0] (cardMount 1000 ''Pasta'')) \<and>
   pendingTimeouts (cardRun [PreloadLoads 0, NameChanges 2000 ''Soup'', TimeoutFires 0] (cardMount 1000 ''Pasta''))
     = []"
proof -
  have "encodeURIComponent ''Soup'' = ''Soup''"
    by code_simp
  then show ?thesis
    by (simp add: cardRun_def cardStep_def cardMount_def imageEffect_def imgOnload_def
        clearTimeout_def runCleanup_def timeoutCallback_def removeAt_def loadingPlaceholder_def
        getBackupImageUrl_def Let_def)
qed

theorem stale_timeout_leaves_placeholder_witness:
  "imageUrl (cardRun [PreloadLoads 0, NameChanges 2000 ''Soup'', TimeoutFires 0] (cardMount 1000 ''Pasta''))
     \<noteq> ''https://placehold.co/600x350/f8f9fa/6c757d?text=Soup''"
proof -
  have "getBackupImageUrl ''Soup'' = ''https://placehold.co/600x350/f8f9fa/6c757d?text=Soup''"
    by code_simp
  moreover have "imageUrl (cardRun [PreloadLoads 0, NameChanges 2000 ''Soup'', TimeoutFires 0]
      (cardMount 1000 ''Pasta'')) \<noteq> getBackupImageUrl ''Soup''"
    using stale_timeout_leaves_placeholder by blast
  ultimately show ?thesis by simp
qed

end
